theory Spec2Isabelle
  imports Complex_Main
begin

section \<open>Values that cross the HTTP boundary\<close>

text \<open>
  The handlers of \<^verbatim>\<open>App.tsx\<close> read the bodies of responses through
  \<^verbatim>\<open>response.json()\<close>, whose result has the TypeScript type \<^verbatim>\<open>any\<close>. The code
  inspects those values dynamically (\<^verbatim>\<open>data.models || []\<close>,
  \<^verbatim>\<open>errorData.detail || 'Conversion failed'\<close>), so they are modelled as JavaScript
  values: the JSON values together with \<^verbatim>\<open>undefined\<close>, the result of reading a
  property that an object does not have. A number is the parsed number; the code only
  ever observes whether it is zero.
\<close>

datatype jsval =
    JUndefined
  | JNull
  | JBool bool
  | JNum real
  | JStr string
  | JArr "jsval list"
  | JObj "(string \<times> jsval) list"

text \<open>
  What a \<^verbatim>\<open>throw\<close> or a rejected promise carries: an \<^verbatim>\<open>Error\<close> object with its
  message, or any other value. The \<^verbatim>\<open>catch\<close> block of \<^verbatim>\<open>handleConvert\<close>
  distinguishes the two with \<^verbatim>\<open>err instanceof Error\<close>.
\<close>

datatype thrown = JsError string | OtherThrown

text \<open>
  A response of the Fetch API. \<^verbatim>\<open>response.ok\<close> is true exactly for the statuses
  200 to 299; \<^verbatim>\<open>response.json()\<close> either rejects (the body is not JSON) or yields
  the parsed value. \<^verbatim>\<open>await fetch(...)\<close> itself either rejects (the request never
  completed) or yields a response, whatever its status: its outcome is a value of
  \<open>thrown + response\<close>.
\<close>

record response =
  status :: nat
  json :: "thrown + jsval"

definition ok :: "response \<Rightarrow> bool" where
  "ok r = (200 \<le> status r \<and> status r \<le> 299)"

section \<open>Data model\<close>

datatype ViewType = Front | Back | Left | Right

text \<open>A \<^verbatim>\<open>File\<close> of the browser: an opaque payload, identified here by its name.\<close>

datatype File = File string

record ViewImages =
  front :: "File option"
  "back" :: "File option"
  left :: "File option"
  right :: "File option"

record SavedModel =
  id' :: int
  task_id :: string
  name :: string
  description :: "string option"
  model_url :: string
  thumbnail_url :: "string option"
  view_config :: "(string \<times> string) list option"
  created_at :: string

record ConversionResult =
  status :: string
  task_id :: string
  model_id :: "int option"
  model_url :: string
  thumbnail_url :: "string option"

datatype tab = Create | Gallery

text \<open>
  The twelve \<^verbatim>\<open>useState\<close> cells of the \<^verbatim>\<open>App\<close> component. Nothing else is
  stored: the address shown in the viewer is computed from this record at every render.
\<close>

record app_state =
  activeTab :: tab
  viewImages :: ViewImages
  modelName :: string
  isConverting :: bool
  conversionResult :: "ConversionResult option"
  error :: "string option"
  progress :: string
  savedModels :: "SavedModel list"
  selectedModel :: "SavedModel option"
  editingModel :: "int option"
  editName :: string
  editDescription :: string

definition initial_state :: app_state where
  "initial_state =
     \<lparr>activeTab = Create,
      viewImages = \<lparr>front = None, back = None, left = None, right = None\<rparr>,
      modelName = '''',
      isConverting = False,
      conversionResult = None,
      error = None,
      progress = '''',
      savedModels = [],
      selectedModel = None,
      editingModel = None,
      editName = '''',
      editDescription = ''''\<rparr>"

text \<open>
  What the module takes from its environment and does not define: the constant
  \<^verbatim>\<open>API_BASE\<close> (read from the build configuration), the built-in
  \<^verbatim>\<open>encodeURIComponent\<close>, the string conversion that \<^verbatim>\<open>new Error(v)\<close> applies to
  a value that is not a string, the message of the \<^verbatim>\<open>TypeError\<close> that the engine
  throws when a property of \<^verbatim>\<open>null\<close> or \<^verbatim>\<open>undefined\<close> is read, and the two
  unchecked type assertions by which a value of type \<^verbatim>\<open>any\<close> is stored in a typed
  state cell (\<^verbatim>\<open>setConversionResult(result)\<close>, \<^verbatim>\<open>setSavedModels(...)\<close>). Every
  theorem below holds for all of them.
\<close>

record js_runtime =
  API_BASE :: string
  encodeURIComponent :: "string \<Rightarrow> string"
  toStringJs :: "jsval \<Rightarrow> string"
  typeErrorMessage :: "jsval \<Rightarrow> string \<Rightarrow> string"
  asConversionResult :: "jsval \<Rightarrow> ConversionResult option"
  asSavedModels :: "jsval \<Rightarrow> SavedModel list"

section \<open>The requests and other effects of a handler\<close>

datatype form_value = FileValue File | TextValue string

text \<open>
  The four requests the component issues, each to a fixed path under \<^verbatim>\<open>API_BASE\<close>:
  \<^verbatim>\<open>GET /api/models\<close>, \<^verbatim>\<open>POST /api/convert-multiview\<close> with a multipart body (the
  entries of the \<^verbatim>\<open>FormData\<close> in the order they were appended),
  \<^verbatim>\<open>DELETE /api/models/{id}\<close>, and \<^verbatim>\<open>PUT /api/models/{id}\<close> with the name and the
  description.
\<close>

datatype request =
    GetModels
  | PostConvert "(string \<times> form_value) list"
  | DeleteModel int
  | PutModel int string string

datatype effect =
    Fetch request
  | Confirm string
  | ConsoleError string thrown

section \<open>The fragment of JavaScript the handlers use\<close>

fun truthy :: "jsval \<Rightarrow> bool" where
  "truthy JUndefined = False"
| "truthy JNull = False"
| "truthy (JBool b) = b"
| "truthy (JNum x) = (x \<noteq> 0)"
| "truthy (JStr s) = (s \<noteq> [])"
| "truthy (JArr xs) = True"
| "truthy (JObj kvs) = True"

definition js_or :: "jsval \<Rightarrow> jsval \<Rightarrow> jsval" where
  "js_or a b = (if truthy a then a else b)"

text \<open>
  Reading the property \<open>k\<close> of a value, for the two names the code reads from a body
  (\<^verbatim>\<open>models\<close> and \<^verbatim>\<open>detail\<close>, which no built-in prototype defines): on
  \<^verbatim>\<open>null\<close> and \<^verbatim>\<open>undefined\<close> the engine throws a \<^verbatim>\<open>TypeError\<close>; an object
  yields its property or \<^verbatim>\<open>undefined\<close>; every other value yields
  \<^verbatim>\<open>undefined\<close>. The list of a \<open>JObj\<close> holds the properties of the parsed object.
\<close>

fun getProp :: "js_runtime \<Rightarrow> jsval \<Rightarrow> string \<Rightarrow> thrown + jsval" where
  "getProp rt JUndefined k = Inl (JsError (typeErrorMessage rt JUndefined k))"
| "getProp rt JNull k = Inl (JsError (typeErrorMessage rt JNull k))"
| "getProp rt (JObj kvs) k = Inr (case map_of kvs k of None \<Rightarrow> JUndefined | Some v \<Rightarrow> v)"
| "getProp rt v k = Inr JUndefined"

text \<open>
  The message of \<^verbatim>\<open>new Error(v)\<close>: a string is taken as it is, \<^verbatim>\<open>undefined\<close>
  leaves the message empty, any other value is converted to a string.
\<close>

fun newError :: "js_runtime \<Rightarrow> jsval \<Rightarrow> thrown" where
  "newError rt (JStr s) = JsError s"
| "newError rt JUndefined = JsError []"
| "newError rt v = JsError (toStringJs rt v)"

definition startsWith :: "string \<Rightarrow> string \<Rightarrow> bool" where
  "startsWith s p = (take (length p) s = p)"

text \<open>The decimal digits of a number, as a template literal prints it.\<close>

fun decimal :: "nat \<Rightarrow> string" where
  "decimal n =
     (let digit = [''0123456789'' ! (n mod 10)]
      in if n div 10 = 0 then digit else decimal (n div 10) @ digit)"

section \<open>The handlers of the component\<close>

text \<open>
  Each handler is a function of the state it runs in and of the answers the environment
  gives at its \<^verbatim>\<open>await\<close>s; it returns the state after its last \<^verbatim>\<open>set...\<close> call and
  the effects it performed, in order. A handler is read as running against the state of
  the render that created it, with no other event handled between its \<^verbatim>\<open>await\<close> and
  its continuation.

  \<^verbatim>\<open>fetchModels\<close>: the request, the parse of the body and the read of
  \<^verbatim>\<open>data.models\<close> are inside one \<^verbatim>\<open>try\<close>; whatever is thrown there is logged and
  the snapshot is left as it was. The status of the response is never looked at. The
  literal \<^verbatim>\<open>[]\<close> of \<^verbatim>\<open>data.models || []\<close> is the empty list of models.
\<close>

definition fetchModels ::
  "js_runtime \<Rightarrow> thrown + response \<Rightarrow> app_state \<Rightarrow> app_state \<times> effect list" where
  "fetchModels rt listOut s =
     (case (case listOut of
              Inl e \<Rightarrow> Inl e
            | Inr resp \<Rightarrow>
                (case json resp of
                   Inl e \<Rightarrow> Inl e
                 | Inr data \<Rightarrow> getProp rt data ''models'')) of
        Inl err \<Rightarrow> (s, [Fetch GetModels, ConsoleError ''Failed to fetch models:'' err])
      | Inr m \<Rightarrow>
          (s\<lparr>savedModels := (if truthy m then asSavedModels rt m else [])\<rparr>,
           [Fetch GetModels]))"

fun handleViewFileChange :: "ViewType \<Rightarrow> File option \<Rightarrow> app_state \<Rightarrow> app_state \<times> effect list" where
  "handleViewFileChange Front f s = (s\<lparr>viewImages := (viewImages s)\<lparr>front := f\<rparr>\<rparr>, [])"
| "handleViewFileChange Back f s = (s\<lparr>viewImages := (viewImages s)\<lparr>back := f\<rparr>\<rparr>, [])"
| "handleViewFileChange Left f s = (s\<lparr>viewImages := (viewImages s)\<lparr>left := f\<rparr>\<rparr>, [])"
| "handleViewFileChange Right f s = (s\<lparr>viewImages := (viewImages s)\<lparr>right := f\<rparr>\<rparr>, [])"

definition clearAllViews :: "app_state \<Rightarrow> app_state \<times> effect list" where
  "clearAllViews s =
     (s\<lparr>viewImages := \<lparr>front = None, back = None, left = None, right = None\<rparr>,
        modelName := '''',
        conversionResult := None,
        error := None\<rparr>,
      [])"

text \<open>
  The \<^verbatim>\<open>FormData\<close> of \<^verbatim>\<open>handleConvert\<close>: \<^verbatim>\<open>front\<close> is appended
  unconditionally (the guard before has established it), each of the other slots and the
  name only when truthy.
\<close>

definition appendIf :: "string \<Rightarrow> File option \<Rightarrow> (string \<times> form_value) list" where
  "appendIf k v = (case v of None \<Rightarrow> [] | Some x \<Rightarrow> [(k, FileValue x)])"

definition buildFormData :: "File \<Rightarrow> ViewImages \<Rightarrow> string \<Rightarrow> (string \<times> form_value) list" where
  "buildFormData f v nm =
     [(''front'', FileValue f)]
     @ appendIf ''back'' (back v)
     @ appendIf ''left'' (left v)
     @ appendIf ''right'' (right v)
     @ (if nm \<noteq> [] then [(''name'', TextValue nm)] else [])"

definition viewCount :: "ViewImages \<Rightarrow> nat" where
  "viewCount v = length (filter (\<lambda>x. x \<noteq> None) [front v, back v, left v, right v])"

text \<open>
  The body of the \<^verbatim>\<open>try\<close> of \<^verbatim>\<open>handleConvert\<close> from the \<^verbatim>\<open>await fetch\<close> to
  the parsed result: \<open>Inl\<close> is what reaches the \<^verbatim>\<open>catch\<close>, \<open>Inr\<close> the value of
  \<^verbatim>\<open>result\<close>.
\<close>

definition awaitConvert :: "js_runtime \<Rightarrow> thrown + response \<Rightarrow> thrown + jsval" where
  "awaitConvert rt convOut =
     (case convOut of
        Inl e \<Rightarrow> Inl e
      | Inr resp \<Rightarrow>
          if \<not> ok resp then
            (case json resp of
               Inl e \<Rightarrow> Inl e
             | Inr errorData \<Rightarrow>
                 (case getProp rt errorData ''detail'' of
                    Inl e \<Rightarrow> Inl e
                  | Inr d \<Rightarrow> Inl (newError rt (js_or d (JStr ''Conversion failed'')))))
          else json resp)"

definition catchConvert :: "thrown \<Rightarrow> app_state \<Rightarrow> app_state" where
  "catchConvert err s =
     s\<lparr>error := Some (case err of JsError m \<Rightarrow> m | OtherThrown \<Rightarrow> ''An error occurred''),
       progress := ''''\<rparr>"

text \<open>
  \<^verbatim>\<open>handleConvert\<close>. The call \<^verbatim>\<open>fetchModels()\<close> on the success path is not
  awaited: its request is issued at the call, its continuation runs when the list
  response arrives. It is sequenced here at the call; it writes \<open>savedModels\<close> only,
  which the rest of the handler neither reads nor writes, so the order does not show in
  the resulting state.
\<close>

definition handleConvert ::
  "js_runtime \<Rightarrow> thrown + response \<Rightarrow> thrown + response \<Rightarrow> app_state \<Rightarrow> app_state \<times> effect list" where
  "handleConvert rt convOut listOut s =
     (case front (viewImages s) of
        None \<Rightarrow> (s\<lparr>error := Some ''Front view image is required''\<rparr>, [])
      | Some f \<Rightarrow>
          let s1 = s\<lparr>isConverting := True, error := None, progress := ''Uploading images...''\<rparr>;
              formData = buildFormData f (viewImages s) (modelName s);
              s2 = s1\<lparr>progress := ''Processing '' @ decimal (viewCount (viewImages s))
                                  @ '' view(s) with Tripo3D (30-90 seconds)...''\<rparr>;
              (s3, effs) =
                (case awaitConvert rt convOut of
                   Inl err \<Rightarrow> (catchConvert err s2, [])
                 | Inr result \<Rightarrow>
                     fetchModels rt listOut
                       (s2\<lparr>conversionResult := asConversionResult rt result, progress := ''''\<rparr>))
          in (s3\<lparr>isConverting := False\<rparr>, Fetch (PostConvert formData) # effs))"

text \<open>
  \<^verbatim>\<open>handleDeleteModel\<close>: \<open>confirmed\<close> is the answer to the \<^verbatim>\<open>confirm\<close> prompt.
  \<^verbatim>\<open>selectedModel?.id === modelId\<close> is false when nothing is selected.
\<close>

definition handleDeleteModel ::
  "js_runtime \<Rightarrow> bool \<Rightarrow> thrown + response \<Rightarrow> thrown + response \<Rightarrow> int \<Rightarrow> app_state
     \<Rightarrow> app_state \<times> effect list" where
  "handleDeleteModel rt confirmed delOut listOut modelId s =
     (let prompt = Confirm ''Are you sure you want to delete this model?'' in
      if \<not> confirmed then (s, [prompt])
      else
        (case delOut of
           Inl err \<Rightarrow>
             (s, [prompt, Fetch (DeleteModel modelId), ConsoleError ''Failed to delete model:'' err])
         | Inr resp \<Rightarrow>
             let (s1, effs) = fetchModels rt listOut s;
                 s2 = (if map_option id' (selectedModel s) = Some modelId
                       then s1\<lparr>selectedModel := None\<rparr> else s1)
             in (s2, [prompt, Fetch (DeleteModel modelId)] @ effs)))"

definition handleUpdateModel ::
  "js_runtime \<Rightarrow> thrown + response \<Rightarrow> thrown + response \<Rightarrow> int \<Rightarrow> app_state
     \<Rightarrow> app_state \<times> effect list" where
  "handleUpdateModel rt putOut listOut modelId s =
     (let req = Fetch (PutModel modelId (editName s) (editDescription s)) in
      case putOut of
        Inl err \<Rightarrow> (s, [req, ConsoleError ''Failed to update model:'' err])
      | Inr resp \<Rightarrow>
          let (s1, effs) = fetchModels rt listOut (s\<lparr>editingModel := None\<rparr>)
          in (s1, req # effs))"

definition getProxyUrl :: "js_runtime \<Rightarrow> string \<Rightarrow> string option" where
  "getProxyUrl rt url =
     (if url = [] then None
      else if startsWith url ''http''
           then Some (API_BASE rt @ ''/api/proxy-glb?url='' @ encodeURIComponent rt url)
           else Some url)"

text \<open>
  \<^verbatim>\<open>displayModelUrl\<close>, a constant of the render: \<^verbatim>\<open>x?.model_url\<close> is
  \<^verbatim>\<open>undefined\<close> when \<open>x\<close> is \<^verbatim>\<open>null\<close>, and a string is truthy when it is not
  empty.
\<close>

definition displayModelUrl :: "js_runtime \<Rightarrow> app_state \<Rightarrow> string option" where
  "displayModelUrl rt s =
     (let fromSelected =
            (case map_option SavedModel.model_url (selectedModel s) of
               None \<Rightarrow> None
             | Some u \<Rightarrow> if u \<noteq> [] then getProxyUrl rt u else None)
      in case map_option ConversionResult.model_url (conversionResult s) of
           None \<Rightarrow> fromSelected
         | Some u \<Rightarrow> if u \<noteq> [] then getProxyUrl rt u else fromSelected)"

section \<open>Observations on effects and payloads\<close>

text \<open>The vocabulary in which the properties below are stated.\<close>

fun fileFields :: "(string \<times> form_value) list \<Rightarrow> (string \<times> File) list" where
  "fileFields [] = []"
| "fileFields ((k, FileValue x) # fd) = (k, x) # fileFields fd"
| "fileFields ((k, TextValue t) # fd) = fileFields fd"

fun textFields :: "(string \<times> form_value) list \<Rightarrow> (string \<times> string) list" where
  "textFields [] = []"
| "textFields ((k, FileValue x) # fd) = textFields fd"
| "textFields ((k, TextValue t) # fd) = (k, t) # textFields fd"

fun requests :: "effect list \<Rightarrow> request list" where
  "requests [] = []"
| "requests (Fetch r # effs) = r # requests effs"
| "requests (Confirm t # effs) = requests effs"
| "requests (ConsoleError t x # effs) = requests effs"

fun isString :: "jsval \<Rightarrow> bool" where
  "isString (JStr t) = True"
| "isString v = False"

definition hasUrl :: "string option \<Rightarrow> bool" where
  "hasUrl u = (case u of None \<Rightarrow> False | Some x \<Rightarrow> x \<noteq> [])"

definition refreshes :: "effect list \<Rightarrow> nat" where
  "refreshes effs = length (filter (\<lambda>r. r = GetModels) (requests effs))"

section \<open>A concrete environment for the examples\<close>

text \<open>
  \<^verbatim>\<open>encodeURIComponent\<close> on a string given by its UTF-8 bytes: the unreserved
  characters (letters, digits and \<^verbatim>\<open>- _ . ! ~ * ' ( )\<close>) stay, every other byte
  becomes \<^verbatim>\<open>%XX\<close>.
\<close>

definition hexDigit :: "nat \<Rightarrow> char" where
  "hexDigit n = ''0123456789ABCDEF'' ! (n mod 16)"

definition unreserved :: "char \<Rightarrow> bool" where
  "unreserved c =
     (let n = (of_char c :: nat)
      in (48 \<le> n \<and> n \<le> 57) \<or> (65 \<le> n \<and> n \<le> 90) \<or> (97 \<le> n \<and> n \<le> 122)
         \<or> n \<in> set [45, 95, 46, 33, 126, 42, 39, 40, 41])"

definition percentEncode :: "string \<Rightarrow> string" where
  "percentEncode s =
     concat (map (\<lambda>c. if unreserved c then [c]
                       else [CHR ''%'', hexDigit (of_char c div 16), hexDigit (of_char c mod 16)]) s)"

text \<open>
  Reading a parsed body at the declared types, for a body that has them: the required
  fields of the interface must be there, an optional one that is missing or of another
  type is read as absent.
\<close>

definition strField :: "(string \<times> jsval) list \<Rightarrow> string \<Rightarrow> string option" where
  "strField kvs k = (case map_of kvs k of Some (JStr t) \<Rightarrow> Some t | _ \<Rightarrow> None)"

definition intField :: "(string \<times> jsval) list \<Rightarrow> string \<Rightarrow> int option" where
  "intField kvs k =
     (case map_of kvs k of
        Some (JNum x) \<Rightarrow> if x = of_int \<lfloor>x\<rfloor> then Some \<lfloor>x\<rfloor> else None
      | _ \<Rightarrow> None)"

definition readConversionResult :: "jsval \<Rightarrow> ConversionResult option" where
  "readConversionResult v =
     (case v of
        JObj kvs \<Rightarrow>
          (case (strField kvs ''status'', strField kvs ''task_id'', strField kvs ''model_url'') of
             (Some st, Some t, Some u) \<Rightarrow>
               Some \<lparr>ConversionResult.status = st, task_id = t, model_id = intField kvs ''model_id'',
                     model_url = u, thumbnail_url = strField kvs ''thumbnail_url''\<rparr>
           | _ \<Rightarrow> None)
      | _ \<Rightarrow> None)"

definition readSavedModel :: "jsval \<Rightarrow> SavedModel option" where
  "readSavedModel v =
     (case v of
        JObj kvs \<Rightarrow>
          (case (intField kvs ''id'', strField kvs ''task_id'', strField kvs ''name'',
                 strField kvs ''model_url'', strField kvs ''created_at'') of
             (Some i, Some t, Some n, Some u, Some c) \<Rightarrow>
               Some \<lparr>id' = i, task_id = t, name = n, description = strField kvs ''description'',
                     model_url = u, thumbnail_url = strField kvs ''thumbnail_url'',
                     view_config = None, created_at = c\<rparr>
           | _ \<Rightarrow> None)
      | _ \<Rightarrow> None)"

definition readSavedModels :: "jsval \<Rightarrow> SavedModel list" where
  "readSavedModels v = (case v of JArr xs \<Rightarrow> List.map_filter readSavedModel xs | _ \<Rightarrow> [])"

definition example_runtime :: js_runtime where
  "example_runtime =
     \<lparr>API_BASE = '''',
      encodeURIComponent = percentEncode,
      toStringJs = (\<lambda>v. ''[object Object]''),
      typeErrorMessage = (\<lambda>v k. ''Cannot read properties of null (reading '' @ k @ '')''),
      asConversionResult = readConversionResult,
      asSavedModels = readSavedModels\<rparr>"

definition chair :: SavedModel where
  "chair =
     \<lparr>id' = 7, task_id = ''t-7'', name = ''chair'', description = None,
      model_url = ''https://cdn.example.com/chair.glb'', thumbnail_url = None,
      view_config = None, created_at = ''2024-05-01T10:00:00''\<rparr>"

definition lamp :: SavedModel where
  "lamp =
     \<lparr>id' = 9, task_id = ''t-9'', name = ''lamp'', description = Some ''desk lamp'',
      model_url = ''/static/lamp.glb'', thumbnail_url = None,
      view_config = None, created_at = ''2024-05-02T10:00:00''\<rparr>"

definition chairResult :: ConversionResult where
  "chairResult =
     \<lparr>ConversionResult.status = ''success'', task_id = ''t-7'', model_id = Some 7,
      model_url = ''https://cdn.example.com/chair.glb'', thumbnail_url = None\<rparr>"

definition chairBody :: jsval where
  "chairBody =
     JObj [(''status'', JStr ''success''), (''task_id'', JStr ''t-7''), (''model_id'', JNum 7),
           (''model_url'', JStr ''https://cdn.example.com/chair.glb'')]"

definition frontOnly :: app_state where
  "frontOnly =
     initial_state\<lparr>viewImages := \<lparr>front = Some (File ''front.png''), back = None,
                                   left = None, right = None\<rparr>\<rparr>"

definition allFour :: app_state where
  "allFour =
     initial_state\<lparr>viewImages := \<lparr>front = Some (File ''front.png''), back = Some (File ''back.png''),
                                   left = Some (File ''left.png''), right = Some (File ''right.png'')\<rparr>,
                    modelName := ''chair''\<rparr>"

definition galleryState :: app_state where
  "galleryState =
     initial_state\<lparr>activeTab := Gallery, savedModels := [chair, lamp], selectedModel := Some chair,
                    editingModel := Some 7, editName := ''armchair'', editDescription := ''oak''\<rparr>"

definition resultState :: app_state where
  "resultState = initial_state\<lparr>conversionResult := Some chairResult, selectedModel := Some lamp\<rparr>"

definition respond :: "nat \<Rightarrow> thrown + jsval \<Rightarrow> thrown + response" where
  "respond st b = Inr \<lparr>response.status = st, json = b\<rparr>"

definition quotaBody :: jsval where
  "quotaBody = JObj [(''detail'', JStr ''quota exceeded'')]"

definition validationBody :: jsval where
  "validationBody = JObj [(''detail'', JArr [JObj [(''msg'', JStr ''field required'')]])]"

definition lampBody :: jsval where
  "lampBody =
     JObj [(''id'', JNum 9), (''task_id'', JStr ''t-9''), (''name'', JStr ''lamp''),
           (''description'', JStr ''desk lamp''), (''model_url'', JStr ''/static/lamp.glb''),
           (''thumbnail_url'', JNull), (''view_config'', JNull),
           (''created_at'', JStr ''2024-05-02T10:00:00'')]"

section \<open>Auxiliary facts\<close>

lemma fileFields_append: "fileFields (xs @ ys) = fileFields xs @ fileFields ys"
  by (induction xs rule: fileFields.induct) simp_all

lemma textFields_append: "textFields (xs @ ys) = textFields xs @ textFields ys"
  by (induction xs rule: textFields.induct) simp_all

lemma requests_append: "requests (xs @ ys) = requests xs @ requests ys"
  by (induction xs rule: requests.induct) simp_all

text \<open>\<^verbatim>\<open>fetchModels\<close> writes the snapshot and nothing else, and issues one request.\<close>

lemma fetchModels_fields:
  "activeTab (fst (fetchModels rt lo s)) = activeTab s"
  "viewImages (fst (fetchModels rt lo s)) = viewImages s"
  "modelName (fst (fetchModels rt lo s)) = modelName s"
  "isConverting (fst (fetchModels rt lo s)) = isConverting s"
  "conversionResult (fst (fetchModels rt lo s)) = conversionResult s"
  "error (fst (fetchModels rt lo s)) = error s"
  "progress (fst (fetchModels rt lo s)) = progress s"
  "selectedModel (fst (fetchModels rt lo s)) = selectedModel s"
  "editingModel (fst (fetchModels rt lo s)) = editingModel s"
  "editName (fst (fetchModels rt lo s)) = editName s"
  "editDescription (fst (fetchModels rt lo s)) = editDescription s"
  by (simp_all add: fetchModels_def split: sum.splits)

lemma fetchModels_requests: "requests (snd (fetchModels rt lo s)) = [GetModels]"
  by (simp add: fetchModels_def split: sum.splits)

lemma fetchModels_caught:
  "(case lo of Inl e \<Rightarrow> Inl e
             | Inr resp \<Rightarrow> (case json resp of Inl e \<Rightarrow> Inl e
                                             | Inr data \<Rightarrow> getProp rt data ''models'')) = Inl err
   \<Longrightarrow> fst (fetchModels rt lo s) = s"
  by (simp add: fetchModels_def)

lemma fetchModels_stored:
  "json resp = Inr data \<Longrightarrow> getProp rt data ''models'' = Inr m \<Longrightarrow>
   savedModels (fst (fetchModels rt (Inr resp) s)) = (if truthy m then asSavedModels rt m else [])"
  by (simp add: fetchModels_def)

lemma buildFormData_files:
  "map_of (fileFields (buildFormData f v nm)) =
     (\<lambda>k. if k = ''front'' then Some f
          else if k = ''back'' then back v
          else if k = ''left'' then left v
          else if k = ''right'' then right v
          else None)"
  by (rule ext) (simp add: buildFormData_def fileFields_append appendIf_def split: option.splits)

lemma buildFormData_texts:
  "textFields (buildFormData f v nm) = (if nm \<noteq> [] then [(''name'', nm)] else [])"
  by (simp add: buildFormData_def textFields_append appendIf_def split: option.splits)

lemma buildFormData_distinct: "distinct (map fst (buildFormData f v nm))"
  by (simp add: buildFormData_def appendIf_def split: option.splits)

lemma buildFormData_count:
  "front v = Some f \<Longrightarrow> length (fileFields (buildFormData f v nm)) = viewCount v"
  by (simp add: buildFormData_def fileFields_append appendIf_def viewCount_def split: option.splits)

lemma buildFormData_front_only:
  "back v = None \<Longrightarrow> left v = None \<Longrightarrow> right v = None \<Longrightarrow>
   fileFields (buildFormData f v nm) = [(''front'', f)]"
  by (simp add: buildFormData_def fileFields_append appendIf_def)

lemma buildFormData_all_four:
  "back v \<noteq> None \<Longrightarrow> left v \<noteq> None \<Longrightarrow> right v \<noteq> None \<Longrightarrow>
   length (fileFields (buildFormData f v nm)) = 4"
  by (auto simp: buildFormData_def fileFields_append appendIf_def)

lemma handleConvert_post:
  "front (viewImages s) = Some f \<Longrightarrow>
   \<exists>rest. requests (snd (handleConvert rt co lo s))
             = PostConvert (buildFormData f (viewImages s) (modelName s)) # rest
         \<and> (rest = [] \<or> rest = [GetModels])"
  by (auto simp: handleConvert_def Let_def fetchModels_def split: sum.splits prod.splits)

lemma awaitConvert_ok: "ok resp \<Longrightarrow> awaitConvert rt (Inr resp) = json resp"
  by (simp add: awaitConvert_def)

lemma awaitConvert_not_ok:
  "\<not> ok resp \<Longrightarrow> awaitConvert rt (Inr resp) =
     (case json resp of
        Inl e \<Rightarrow> Inl e
      | Inr errorData \<Rightarrow>
          (case getProp rt errorData ''detail'' of
             Inl e \<Rightarrow> Inl e
           | Inr d \<Rightarrow> Inl (newError rt (js_or d (JStr ''Conversion failed'')))))"
  by (simp add: awaitConvert_def)

lemma handleConvert_caught:
  "front (viewImages s) = Some f \<Longrightarrow> awaitConvert rt co = Inl err \<Longrightarrow>
   error (fst (handleConvert rt co lo s))
     = Some (case err of JsError m \<Rightarrow> m | OtherThrown \<Rightarrow> ''An error occurred'')"
  by (simp add: handleConvert_def Let_def catchConvert_def)

lemma handleConvert_result:
  "front (viewImages s) = Some f \<Longrightarrow> awaitConvert rt co = Inr v \<Longrightarrow>
   handleConvert rt co lo s =
     ((fst (fetchModels rt lo
         (s\<lparr>isConverting := True, error := None, conversionResult := asConversionResult rt v,
            progress := []\<rparr>)))\<lparr>isConverting := False\<rparr>,
      Fetch (PostConvert (buildFormData f (viewImages s) (modelName s)))
        # snd (fetchModels rt lo
            (s\<lparr>isConverting := True, error := None, conversionResult := asConversionResult rt v,
               progress := []\<rparr>)))"
  by (simp add: handleConvert_def Let_def case_prod_unfold)

lemma newError_converted:
  "truthy d \<Longrightarrow> \<not> isString d \<Longrightarrow> newError rt d = JsError (toStringJs rt d)"
  by (cases d) simp_all

lemma handleDeleteModel_resolved:
  "handleDeleteModel rt True (Inr resp) lo modelId s =
     ((if map_option id' (selectedModel s) = Some modelId
       then (fst (fetchModels rt lo s))\<lparr>selectedModel := None\<rparr>
       else fst (fetchModels rt lo s)),
      [Confirm ''Are you sure you want to delete this model?'', Fetch (DeleteModel modelId)]
        @ snd (fetchModels rt lo s))"
  by (simp add: handleDeleteModel_def Let_def case_prod_unfold)

lemma handleDeleteModel_rejected:
  "handleDeleteModel rt True (Inl err) lo modelId s =
     (s, [Confirm ''Are you sure you want to delete this model?'', Fetch (DeleteModel modelId),
          ConsoleError ''Failed to delete model:'' err])"
  by (simp add: handleDeleteModel_def)

lemma handleUpdateModel_resolved:
  "handleUpdateModel rt (Inr resp) lo modelId s =
     (fst (fetchModels rt lo (s\<lparr>editingModel := None\<rparr>)),
      Fetch (PutModel modelId (editName s) (editDescription s))
        # snd (fetchModels rt lo (s\<lparr>editingModel := None\<rparr>)))"
  by (simp add: handleUpdateModel_def Let_def case_prod_unfold)

lemma handleUpdateModel_rejected:
  "handleUpdateModel rt (Inl err) lo modelId s =
     (s, [Fetch (PutModel modelId (editName s) (editDescription s)),
          ConsoleError ''Failed to update model:'' err])"
  by (simp add: handleUpdateModel_def)

text \<open>The concrete environment on the concrete bodies.\<close>

lemma readConversionResult_chairBody: "readConversionResult chairBody = Some chairResult"
  by (simp add: readConversionResult_def chairBody_def chairResult_def strField_def intField_def)

lemma percentEncode_chair:
  "percentEncode ''https://cdn.example.com/chair.glb''
     = ''https%3A%2F%2Fcdn.example.com%2Fchair.glb''"
  by (simp add: percentEncode_def unreserved_def hexDigit_def)

lemma readSavedModels_lampBody: "readSavedModels (JArr [lampBody]) = [lamp]"
  by (simp add: readSavedModels_def readSavedModel_def List.map_filter_simps lampBody_def
      lamp_def strField_def intField_def)

section \<open>Submitting a conversion\<close>

text \<open>
  C1. Whenever the front slot is empty, \<^verbatim>\<open>handleConvert\<close> issues no request (it has
  no effect at all), sets the error text to the validation message (the literal of the
  code is \<^verbatim>\<open>Front view image is required\<close>) and changes nothing else: the
  converting flag, the progress text and the conversion result are as before, whatever
  the environment would have answered.
\<close>

theorem handleConvert_front_required:
  assumes "front (viewImages s) = None"
  shows "handleConvert rt convOut listOut s
           = (s\<lparr>error := Some ''Front view image is required''\<rparr>, [])
       \<and> requests (snd (handleConvert rt convOut listOut s)) = []
       \<and> error (fst (handleConvert rt convOut listOut s)) = Some ''Front view image is required''
       \<and> isConverting (fst (handleConvert rt convOut listOut s)) = isConverting s
       \<and> progress (fst (handleConvert rt convOut listOut s)) = progress s
       \<and> conversionResult (fst (handleConvert rt convOut listOut s)) = conversionResult s"
  using assms by (simp add: handleConvert_def)

theorem handleConvert_front_required_witness:
  "front (viewImages initial_state) = None
   \<and> handleConvert example_runtime (respond 200 (Inr chairBody)) (Inl OtherThrown) initial_state
       = (initial_state\<lparr>error := Some ''Front view image is required''\<rparr>, [])"
proof -
  have h: "front (viewImages initial_state) = None"
    by (simp add: initial_state_def)
  from handleConvert_front_required [OF h] h show ?thesis by simp
qed

text \<open>
  C2. Whenever the front slot holds a file, the first request of \<^verbatim>\<open>handleConvert\<close>
  is the POST to the conversion endpoint, nothing but the gallery refresh follows it,
  and its multipart payload \<open>fd\<close> has exactly the non-empty view slots as file fields:
  \<^verbatim>\<open>front\<close> always, each of \<^verbatim>\<open>back\<close>, \<^verbatim>\<open>left\<close>, \<^verbatim>\<open>right\<close> with the file of
  its slot if and only if the slot is non-empty, no other file field, no field twice,
  and as its only text field \<^verbatim>\<open>name\<close>, if and only if the name is non-empty. With
  only the front slot set there is one file field, with all four set there are four.
\<close>

theorem handleConvert_payload:
  assumes "front (viewImages s) = Some f"
    and "fd = buildFormData f (viewImages s) (modelName s)"
  shows "(\<exists>rest. requests (snd (handleConvert rt convOut listOut s)) = PostConvert fd # rest
                \<and> (rest = [] \<or> rest = [GetModels]))
       \<and> map_of (fileFields fd) =
            (\<lambda>k. if k = ''front'' then front (viewImages s)
                 else if k = ''back'' then back (viewImages s)
                 else if k = ''left'' then left (viewImages s)
                 else if k = ''right'' then right (viewImages s)
                 else None)
       \<and> distinct (map fst fd)
       \<and> textFields fd = (if modelName s \<noteq> [] then [(''name'', modelName s)] else [])
       \<and> length (fileFields fd) = viewCount (viewImages s)
       \<and> (back (viewImages s) = None \<and> left (viewImages s) = None \<and> right (viewImages s) = None
            \<longrightarrow> fileFields fd = [(''front'', f)])
       \<and> (back (viewImages s) \<noteq> None \<and> left (viewImages s) \<noteq> None \<and> right (viewImages s) \<noteq> None
            \<longrightarrow> length (fileFields fd) = 4)"
proof -
  have "\<exists>rest. requests (snd (handleConvert rt convOut listOut s)) = PostConvert fd # rest
              \<and> (rest = [] \<or> rest = [GetModels])"
    unfolding assms(2) by (rule handleConvert_post [OF assms(1)])
  moreover have "map_of (fileFields fd) =
            (\<lambda>k. if k = ''front'' then front (viewImages s)
                 else if k = ''back'' then back (viewImages s)
                 else if k = ''left'' then left (viewImages s)
                 else if k = ''right'' then right (viewImages s)
                 else None)"
    unfolding assms(2) buildFormData_files assms(1) by (rule refl)
  moreover have "distinct (map fst fd)"
    unfolding assms(2) by (rule buildFormData_distinct)
  moreover have "textFields fd = (if modelName s \<noteq> [] then [(''name'', modelName s)] else [])"
    unfolding assms(2) by (rule buildFormData_texts)
  moreover have "length (fileFields fd) = viewCount (viewImages s)"
    unfolding assms(2) by (rule buildFormData_count [OF assms(1)])
  moreover have "back (viewImages s) = None \<and> left (viewImages s) = None \<and> right (viewImages s) = None
            \<longrightarrow> fileFields fd = [(''front'', f)]"
    unfolding assms(2) by (simp add: buildFormData_front_only)
  moreover have "back (viewImages s) \<noteq> None \<and> left (viewImages s) \<noteq> None \<and> right (viewImages s) \<noteq> None
            \<longrightarrow> length (fileFields fd) = 4"
    unfolding assms(2) by (simp add: buildFormData_all_four)
  ultimately show ?thesis by blast
qed

theorem handleConvert_payload_witness:
  "front (viewImages frontOnly) = Some (File ''front.png'')
   \<and> fileFields (buildFormData (File ''front.png'') (viewImages frontOnly) (modelName frontOnly))
       = [(''front'', File ''front.png'')]
   \<and> textFields (buildFormData (File ''front.png'') (viewImages frontOnly) (modelName frontOnly)) = []
   \<and> front (viewImages allFour) = Some (File ''front.png'')
   \<and> length (fileFields (buildFormData (File ''front.png'') (viewImages allFour) (modelName allFour))) = 4
   \<and> textFields (buildFormData (File ''front.png'') (viewImages allFour) (modelName allFour))
       = [(''name'', ''chair'')]"
proof -
  have h1: "front (viewImages frontOnly) = Some (File ''front.png'')"
    and n1: "back (viewImages frontOnly) = None \<and> left (viewImages frontOnly) = None
             \<and> right (viewImages frontOnly) = None"
    and m1: "modelName frontOnly = []"
    by (simp_all add: frontOnly_def initial_state_def)
  have h2: "front (viewImages allFour) = Some (File ''front.png'')"
    and n2: "back (viewImages allFour) \<noteq> None \<and> left (viewImages allFour) \<noteq> None
             \<and> right (viewImages allFour) \<noteq> None"
    and m2: "modelName allFour = ''chair''"
    by (simp_all add: allFour_def initial_state_def)
  from handleConvert_payload [OF h1 refl, of example_runtime "Inl OtherThrown" "Inl OtherThrown"]
       handleConvert_payload [OF h2 refl, of example_runtime "Inl OtherThrown" "Inl OtherThrown"]
       h1 n1 m1 h2 n2 m2
  show ?thesis by simp
qed

text \<open>
  C3 (as amended). For every convert response with a status outside 200 to 299 and a
  non-empty front slot: if the body parses to an object whose \<^verbatim>\<open>detail\<close> is a
  non-empty string, the error text is that string; if the body parses to a value other
  than \<^verbatim>\<open>null\<close> whose \<^verbatim>\<open>detail\<close> is absent or falsy (\<^verbatim>\<open>null\<close>, \<^verbatim>\<open>false\<close>,
  \<^verbatim>\<open>0\<close>, the empty string), the error text is the fixed \<^verbatim>\<open>Conversion failed\<close>;
  a truthy \<^verbatim>\<open>detail\<close> that is not a string is shown through its string conversion;
  and when the body does not parse, or parses to \<^verbatim>\<open>null\<close>, the error text is the
  message of the error thrown (\<^verbatim>\<open>An error occurred\<close> for a thrown value that is not
  an \<^verbatim>\<open>Error\<close>).
\<close>

theorem handleConvert_error_message:
  assumes "front (viewImages s) = Some f" and "\<not> ok resp"
  shows "(json resp = Inr (JObj kvs) \<and> map_of kvs ''detail'' = Some (JStr m) \<and> m \<noteq> [] \<longrightarrow>
            error (fst (handleConvert rt (Inr resp) listOut s)) = Some m)
       \<and> (json resp = Inr body \<and> getProp rt body ''detail'' = Inr d \<and> \<not> truthy d \<longrightarrow>
            error (fst (handleConvert rt (Inr resp) listOut s)) = Some ''Conversion failed'')
       \<and> (json resp = Inr body \<and> getProp rt body ''detail'' = Inr d \<and> truthy d \<and> \<not> isString d \<longrightarrow>
            error (fst (handleConvert rt (Inr resp) listOut s)) = Some (toStringJs rt d))
       \<and> (json resp = Inl (JsError msg) \<longrightarrow>
            error (fst (handleConvert rt (Inr resp) listOut s)) = Some msg)
       \<and> (json resp = Inl OtherThrown \<longrightarrow>
            error (fst (handleConvert rt (Inr resp) listOut s)) = Some ''An error occurred'')
       \<and> (json resp = Inr JNull \<longrightarrow>
            error (fst (handleConvert rt (Inr resp) listOut s))
              = Some (typeErrorMessage rt JNull ''detail''))"
proof -
  note aw = awaitConvert_not_ok [OF assms(2), of rt]
  note caught = handleConvert_caught [OF assms(1), of rt "Inr resp" _ listOut]
  have a: "error (fst (handleConvert rt (Inr resp) listOut s)) = Some m"
    if "json resp = Inr (JObj kvs)" "map_of kvs ''detail'' = Some (JStr m)" "m \<noteq> []"
  proof -
    have "awaitConvert rt (Inr resp) = Inl (JsError m)"
      using that by (simp add: aw js_or_def)
    from caught [OF this] show ?thesis by simp
  qed
  have b: "error (fst (handleConvert rt (Inr resp) listOut s)) = Some ''Conversion failed''"
    if "json resp = Inr body" "getProp rt body ''detail'' = Inr d" "\<not> truthy d"
  proof -
    have "awaitConvert rt (Inr resp) = Inl (JsError ''Conversion failed'')"
      using that by (simp add: aw js_or_def)
    from caught [OF this] show ?thesis by simp
  qed
  have c: "error (fst (handleConvert rt (Inr resp) listOut s)) = Some (toStringJs rt d)"
    if "json resp = Inr body" "getProp rt body ''detail'' = Inr d" "truthy d" "\<not> isString d"
  proof -
    have "awaitConvert rt (Inr resp) = Inl (JsError (toStringJs rt d))"
      using that by (simp add: aw js_or_def newError_converted)
    from caught [OF this] show ?thesis by simp
  qed
  have d: "error (fst (handleConvert rt (Inr resp) listOut s)) = Some msg"
    if "json resp = Inl (JsError msg)"
  proof -
    have "awaitConvert rt (Inr resp) = Inl (JsError msg)"
      using that by (simp add: aw)
    from caught [OF this] show ?thesis by simp
  qed
  have e: "error (fst (handleConvert rt (Inr resp) listOut s)) = Some ''An error occurred''"
    if "json resp = Inl OtherThrown"
  proof -
    have "awaitConvert rt (Inr resp) = Inl OtherThrown"
      using that by (simp add: aw)
    from caught [OF this] show ?thesis by simp
  qed
  have n: "error (fst (handleConvert rt (Inr resp) listOut s))
             = Some (typeErrorMessage rt JNull ''detail'')"
    if "json resp = Inr JNull"
  proof -
    have "awaitConvert rt (Inr resp) = Inl (JsError (typeErrorMessage rt JNull ''detail''))"
      using that by (simp add: aw)
    from caught [OF this] show ?thesis by simp
  qed
  from a b c d e n show ?thesis by blast
qed

theorem handleConvert_error_message_witness:
  "front (viewImages frontOnly) = Some (File ''front.png'')
   \<and> \<not> ok \<lparr>response.status = 500, json = Inr quotaBody\<rparr>
   \<and> error (fst (handleConvert example_runtime (respond 500 (Inr quotaBody)) (Inl OtherThrown) frontOnly))
       = Some ''quota exceeded''
   \<and> error (fst (handleConvert example_runtime (respond 404 (Inr (JObj []))) (Inl OtherThrown) frontOnly))
       = Some ''Conversion failed''
   \<and> error (fst (handleConvert example_runtime (respond 400 (Inr (JObj [(''detail'', JStr [])])))
                  (Inl OtherThrown) frontOnly))
       = Some ''Conversion failed''
   \<and> error (fst (handleConvert example_runtime (respond 422 (Inr validationBody)) (Inl OtherThrown) frontOnly))
       = Some ''[object Object]''
   \<and> error (fst (handleConvert example_runtime (respond 502 (Inl (JsError ''Unexpected token <'')))
                  (Inl OtherThrown) frontOnly))
       = Some ''Unexpected token <''
   \<and> error (fst (handleConvert example_runtime (respond 502 (Inl OtherThrown)) (Inl OtherThrown) frontOnly))
       = Some ''An error occurred''
   \<and> error (fst (handleConvert example_runtime (respond 500 (Inr JNull)) (Inl OtherThrown) frontOnly))
       = Some ''Cannot read properties of null (reading detail)''"
proof -
  have f: "front (viewImages frontOnly) = Some (File ''front.png'')"
    by (simp add: frontOnly_def initial_state_def)
  have k: "\<not> ok \<lparr>response.status = 500, json = b\<rparr>" "\<not> ok \<lparr>response.status = 404, json = b\<rparr>"
    "\<not> ok \<lparr>response.status = 400, json = b\<rparr>" "\<not> ok \<lparr>response.status = 422, json = b\<rparr>"
    "\<not> ok \<lparr>response.status = 502, json = b\<rparr>" for b
    by (simp_all add: ok_def)
  have 1: "error (fst (handleConvert example_runtime (respond 500 (Inr quotaBody)) (Inl OtherThrown) frontOnly))
       = Some ''quota exceeded''"
    using handleConvert_error_message [OF f k(1), where kvs = "[(''detail'', JStr ''quota exceeded'')]"
        and m = "''quota exceeded''" and rt = example_runtime and listOut = "Inl OtherThrown"
        and b1 = "Inr quotaBody"]
    by (simp add: respond_def quotaBody_def)
  have 2: "error (fst (handleConvert example_runtime (respond 404 (Inr (JObj []))) (Inl OtherThrown) frontOnly))
       = Some ''Conversion failed''"
    using handleConvert_error_message [OF f k(2), where body = "JObj []" and d = JUndefined
        and rt = example_runtime and listOut = "Inl OtherThrown" and b1 = "Inr (JObj [])"]
    by (simp add: respond_def)
  have 3: "error (fst (handleConvert example_runtime (respond 400 (Inr (JObj [(''detail'', JStr [])])))
                  (Inl OtherThrown) frontOnly)) = Some ''Conversion failed''"
    using handleConvert_error_message [OF f k(3), where body = "JObj [(''detail'', JStr [])]"
        and d = "JStr []" and rt = example_runtime and listOut = "Inl OtherThrown"
        and b1 = "Inr (JObj [(''detail'', JStr [])])"]
    by (simp add: respond_def)
  have 4: "error (fst (handleConvert example_runtime (respond 422 (Inr validationBody)) (Inl OtherThrown) frontOnly))
       = Some ''[object Object]''"
    using handleConvert_error_message [OF f k(4), where body = validationBody
        and d = "JArr [JObj [(''msg'', JStr ''field required'')]]" and rt = example_runtime
        and listOut = "Inl OtherThrown" and b1 = "Inr validationBody"]
    by (simp add: respond_def validationBody_def example_runtime_def)
  have 5: "error (fst (handleConvert example_runtime (respond 502 (Inl (JsError ''Unexpected token <'')))
                  (Inl OtherThrown) frontOnly)) = Some ''Unexpected token <''"
    using handleConvert_error_message [OF f k(5), where msg = "''Unexpected token <''"
        and rt = example_runtime and listOut = "Inl OtherThrown"
        and b1 = "Inl (JsError ''Unexpected token <'')"]
    by (simp add: respond_def)
  have 6: "error (fst (handleConvert example_runtime (respond 502 (Inl OtherThrown)) (Inl OtherThrown) frontOnly))
       = Some ''An error occurred''"
    using handleConvert_error_message [OF f k(5), where rt = example_runtime
        and listOut = "Inl OtherThrown" and b1 = "Inl OtherThrown"]
    by (simp add: respond_def)
  have 7: "error (fst (handleConvert example_runtime (respond 500 (Inr JNull)) (Inl OtherThrown) frontOnly))
       = Some ''Cannot read properties of null (reading detail)''"
    using handleConvert_error_message [OF f k(1), where rt = example_runtime
        and listOut = "Inl OtherThrown" and b1 = "Inr JNull"]
    by (simp add: respond_def example_runtime_def)
  from f k(1) 1 2 3 4 5 6 7 show ?thesis by blast
qed

theorem handleConvert_error_message_counterexample:
  "front (viewImages frontOnly) \<noteq> None
   \<and> \<not> ok \<lparr>response.status = 502, json = Inl (JsError ''Unexpected token <'')\<rparr>
   \<and> error (fst (handleConvert example_runtime (respond 502 (Inl (JsError ''Unexpected token <'')))
                  (Inl OtherThrown) frontOnly))
       \<noteq> Some ''Conversion failed''"
  by (simp add: handleConvert_def awaitConvert_def catchConvert_def respond_def ok_def
      frontOnly_def initial_state_def Let_def)

section \<open>The address shown in the viewer\<close>

text \<open>
  C4. \<^verbatim>\<open>getProxyUrl\<close> maps the empty address to \<^verbatim>\<open>null\<close>; it returns a non-empty
  address that does not start with \<^verbatim>\<open>http\<close> unchanged, so that applying it again to
  its result changes nothing; and it maps every address that starts with \<^verbatim>\<open>http\<close> to
  \<^verbatim>\<open>API_BASE\<close> followed by \<^verbatim>\<open>/api/proxy-glb?url=\<close> and the encoded address.
\<close>

theorem getProxyUrl_cases:
  "(url = [] \<longrightarrow> getProxyUrl rt url = None)
   \<and> (url \<noteq> [] \<and> \<not> startsWith url ''http'' \<longrightarrow>
        getProxyUrl rt url = Some url
        \<and> Option.bind (getProxyUrl rt url) (getProxyUrl rt) = getProxyUrl rt url)
   \<and> (startsWith url ''http'' \<longrightarrow>
        getProxyUrl rt url
          = Some (API_BASE rt @ ''/api/proxy-glb?url='' @ encodeURIComponent rt url))"
  by (auto simp: getProxyUrl_def startsWith_def)

theorem getProxyUrl_cases_witness:
  "getProxyUrl example_runtime [] = None
   \<and> ''/static/lamp.glb'' \<noteq> [] \<and> \<not> startsWith ''/static/lamp.glb'' ''http''
   \<and> getProxyUrl example_runtime ''/static/lamp.glb'' = Some ''/static/lamp.glb''
   \<and> startsWith ''https://cdn.example.com/chair.glb'' ''http''
   \<and> getProxyUrl example_runtime ''https://cdn.example.com/chair.glb''
       = Some ''/api/proxy-glb?url=https%3A%2F%2Fcdn.example.com%2Fchair.glb''"
proof -
  have n: "''/static/lamp.glb'' \<noteq> [] \<and> \<not> startsWith ''/static/lamp.glb'' ''http''"
    and h: "startsWith ''https://cdn.example.com/chair.glb'' ''http''"
    by (simp_all add: startsWith_def)
  have e: "API_BASE example_runtime = []" "encodeURIComponent example_runtime = percentEncode"
    by (simp_all add: example_runtime_def)
  from getProxyUrl_cases [of "[]" example_runtime]
       getProxyUrl_cases [of "''/static/lamp.glb''" example_runtime]
       getProxyUrl_cases [of "''https://cdn.example.com/chair.glb''" example_runtime]
       n h
  show ?thesis by (simp add: e percentEncode_chair)
qed

text \<open>
  C5. The address shown is a function of the state, which has no cell for it: it is the
  proxied address of the conversion result when there is one with a non-empty
  \<^verbatim>\<open>model_url\<close>; otherwise the proxied address of the selected model when one is
  selected with a non-empty \<^verbatim>\<open>model_url\<close>; otherwise none. In the first two cases
  there is an address to show. Two states with the same conversion result and the same
  selected model show the same address.
\<close>

theorem displayModelUrl_derived:
  "(conversionResult s = Some r \<and> ConversionResult.model_url r \<noteq> [] \<longrightarrow>
        displayModelUrl rt s = getProxyUrl rt (ConversionResult.model_url r)
        \<and> displayModelUrl rt s \<noteq> None)
   \<and> (\<not> hasUrl (map_option ConversionResult.model_url (conversionResult s))
        \<and> selectedModel s = Some m \<and> SavedModel.model_url m \<noteq> [] \<longrightarrow>
        displayModelUrl rt s = getProxyUrl rt (SavedModel.model_url m)
        \<and> displayModelUrl rt s \<noteq> None)
   \<and> (\<not> hasUrl (map_option ConversionResult.model_url (conversionResult s))
        \<and> \<not> hasUrl (map_option SavedModel.model_url (selectedModel s)) \<longrightarrow>
        displayModelUrl rt s = None)
   \<and> (conversionResult t = conversionResult s \<and> selectedModel t = selectedModel s \<longrightarrow>
        displayModelUrl rt t = displayModelUrl rt s)"
  by (auto simp: displayModelUrl_def getProxyUrl_def hasUrl_def split: option.splits)

theorem displayModelUrl_derived_witness:
  "conversionResult resultState = Some chairResult
   \<and> displayModelUrl example_runtime resultState
       = Some ''/api/proxy-glb?url=https%3A%2F%2Fcdn.example.com%2Fchair.glb''
   \<and> conversionResult (resultState\<lparr>conversionResult := None\<rparr>) = None
   \<and> selectedModel (resultState\<lparr>conversionResult := None\<rparr>) = Some lamp
   \<and> displayModelUrl example_runtime (resultState\<lparr>conversionResult := None\<rparr>) = Some ''/static/lamp.glb''
   \<and> displayModelUrl example_runtime initial_state = None
   \<and> displayModelUrl example_runtime (resultState\<lparr>activeTab := Gallery\<rparr>)
       = displayModelUrl example_runtime resultState"
proof -
  have c: "conversionResult resultState = Some chairResult
           \<and> ConversionResult.model_url chairResult \<noteq> []"
    by (simp add: resultState_def chairResult_def)
  have p: "getProxyUrl example_runtime (ConversionResult.model_url chairResult)
             = Some ''/api/proxy-glb?url=https%3A%2F%2Fcdn.example.com%2Fchair.glb''"
    by (simp add: getProxyUrl_def startsWith_def example_runtime_def chairResult_def
        percentEncode_chair)
  have l: "\<not> hasUrl (map_option ConversionResult.model_url
                      (conversionResult (resultState\<lparr>conversionResult := None\<rparr>)))
           \<and> selectedModel (resultState\<lparr>conversionResult := None\<rparr>) = Some lamp
           \<and> SavedModel.model_url lamp \<noteq> []"
    by (simp add: resultState_def lamp_def hasUrl_def)
  have q: "getProxyUrl example_runtime (SavedModel.model_url lamp) = Some ''/static/lamp.glb''"
    by (simp add: getProxyUrl_def startsWith_def lamp_def)
  have i: "\<not> hasUrl (map_option ConversionResult.model_url (conversionResult initial_state))
           \<and> \<not> hasUrl (map_option SavedModel.model_url (selectedModel initial_state))"
    by (simp add: initial_state_def hasUrl_def)
  have t: "conversionResult (resultState\<lparr>activeTab := Gallery\<rparr>) = conversionResult resultState
           \<and> selectedModel (resultState\<lparr>activeTab := Gallery\<rparr>) = selectedModel resultState"
    by simp
  from displayModelUrl_derived [of resultState chairResult example_runtime lamp
         "resultState\<lparr>activeTab := Gallery\<rparr>"]
       displayModelUrl_derived [of "resultState\<lparr>conversionResult := None\<rparr>" chairResult
         example_runtime lamp resultState]
       displayModelUrl_derived [of initial_state chairResult example_runtime lamp initial_state]
       c p l q i t
  show ?thesis by simp
qed

section \<open>Clearing the form\<close>

text \<open>
  C6 (as amended). \<^verbatim>\<open>clearAllViews\<close> performs no effect; it empties the four view
  slots, the model name, the conversion result and the error, and leaves the gallery
  snapshot, the selected model, the edit-mode state, the active tab, the progress text
  and the converting flag as they were.
\<close>

theorem clearAllViews_resets:
  "snd (clearAllViews s) = []
   \<and> viewImages (fst (clearAllViews s)) = \<lparr>front = None, back = None, left = None, right = None\<rparr>
   \<and> modelName (fst (clearAllViews s)) = []
   \<and> conversionResult (fst (clearAllViews s)) = None
   \<and> error (fst (clearAllViews s)) = None
   \<and> savedModels (fst (clearAllViews s)) = savedModels s
   \<and> selectedModel (fst (clearAllViews s)) = selectedModel s
   \<and> editingModel (fst (clearAllViews s)) = editingModel s
   \<and> editName (fst (clearAllViews s)) = editName s
   \<and> editDescription (fst (clearAllViews s)) = editDescription s
   \<and> activeTab (fst (clearAllViews s)) = activeTab s
   \<and> progress (fst (clearAllViews s)) = progress s
   \<and> isConverting (fst (clearAllViews s)) = isConverting s"
  by (simp add: clearAllViews_def)

theorem clearAllViews_resets_counterexample:
  "modelName allFour = ''chair'' \<and> modelName (fst (clearAllViews allFour)) \<noteq> modelName allFour"
  by (simp add: clearAllViews_def allFour_def)

section \<open>After a successful conversion\<close>

text \<open>
  C7. Whenever the front slot holds a file and the convert response has a status from
  200 to 299 and a body that parses to a conversion result \<open>r\<close>, then for every
  outcome \<open>listOut\<close> of the gallery refresh, a failed one included: the handler issues
  the POST and then exactly one \<^verbatim>\<open>GET /api/models\<close>; the progress text is empty;
  the conversion result is \<open>r\<close>; no error is shown; the converting flag is off.
\<close>

theorem handleConvert_success:
  assumes "front (viewImages s) = Some f" and "ok resp" and "json resp = Inr v"
    and "asConversionResult rt v = Some r"
  shows "requests (snd (handleConvert rt (Inr resp) listOut s))
           = [PostConvert (buildFormData f (viewImages s) (modelName s)), GetModels]
       \<and> refreshes (snd (handleConvert rt (Inr resp) listOut s)) = 1
       \<and> progress (fst (handleConvert rt (Inr resp) listOut s)) = []
       \<and> conversionResult (fst (handleConvert rt (Inr resp) listOut s)) = Some r
       \<and> error (fst (handleConvert rt (Inr resp) listOut s)) = None
       \<and> isConverting (fst (handleConvert rt (Inr resp) listOut s)) = False"
proof -
  have aw: "awaitConvert rt (Inr resp) = Inr v"
    using assms(2,3) by (simp add: awaitConvert_ok)
  show ?thesis
    unfolding handleConvert_result [OF assms(1) aw]
    by (simp add: fetchModels_fields fetchModels_requests refreshes_def assms(4))
qed

theorem handleConvert_success_witness:
  "front (viewImages frontOnly) = Some (File ''front.png'')
   \<and> ok \<lparr>response.status = 200, json = Inr chairBody\<rparr>
   \<and> asConversionResult example_runtime chairBody = Some chairResult
   \<and> requests (snd (handleConvert example_runtime (respond 200 (Inr chairBody))
                      (Inl (JsError ''Failed to fetch'')) frontOnly))
       = [PostConvert [(''front'', FileValue (File ''front.png''))], GetModels]
   \<and> conversionResult (fst (handleConvert example_runtime (respond 200 (Inr chairBody))
                              (Inl (JsError ''Failed to fetch'')) frontOnly))
       = Some chairResult
   \<and> error (fst (handleConvert example_runtime (respond 200 (Inr chairBody))
                   (Inl (JsError ''Failed to fetch'')) frontOnly)) = None
   \<and> progress (fst (handleConvert example_runtime (respond 200 (Inr chairBody))
                      (respond 500 (Inr JNull)) frontOnly)) = []"
proof -
  have f: "front (viewImages frontOnly) = Some (File ''front.png'')"
    by (simp add: frontOnly_def initial_state_def)
  have k: "ok \<lparr>response.status = 200, json = Inr chairBody\<rparr>"
    by (simp add: ok_def)
  have j: "json \<lparr>response.status = 200, json = Inr chairBody\<rparr> = Inr chairBody"
    by simp
  have a: "asConversionResult example_runtime chairBody = Some chairResult"
    by (simp add: example_runtime_def readConversionResult_chairBody)
  have b: "buildFormData (File ''front.png'') (viewImages frontOnly) (modelName frontOnly)
             = [(''front'', FileValue (File ''front.png''))]"
    by (simp add: buildFormData_def appendIf_def frontOnly_def initial_state_def)
  from handleConvert_success [OF f k j a, of "Inl (JsError ''Failed to fetch'')"]
       handleConvert_success [OF f k j a, of "respond 500 (Inr JNull)"]
       f k a b
  show ?thesis by (simp add: respond_def)
qed

section \<open>Deleting and updating a saved model\<close>

text \<open>
  C8 (as amended). For every confirmed delete of \<open>modelId\<close> whose request completes
  with a response, whatever its status: the selection is cleared if \<open>modelId\<close> is the
  identifier of the selected model and is left as it was otherwise, and one
  \<^verbatim>\<open>GET /api/models\<close> follows the DELETE. When the request itself fails (the fetch
  rejects), the state is left as it was, the selection included, and no refresh is
  issued.
\<close>

theorem handleDeleteModel_confirmed:
  "(delOut = Inr resp \<longrightarrow>
      (map_option id' (selectedModel s) = Some modelId \<longrightarrow>
         selectedModel (fst (handleDeleteModel rt True delOut listOut modelId s)) = None)
      \<and> (map_option id' (selectedModel s) \<noteq> Some modelId \<longrightarrow>
         selectedModel (fst (handleDeleteModel rt True delOut listOut modelId s)) = selectedModel s)
      \<and> requests (snd (handleDeleteModel rt True delOut listOut modelId s))
          = [DeleteModel modelId, GetModels]
      \<and> refreshes (snd (handleDeleteModel rt True delOut listOut modelId s)) = 1)
   \<and> (delOut = Inl err \<longrightarrow>
      fst (handleDeleteModel rt True delOut listOut modelId s) = s
      \<and> requests (snd (handleDeleteModel rt True delOut listOut modelId s)) = [DeleteModel modelId]
      \<and> refreshes (snd (handleDeleteModel rt True delOut listOut modelId s)) = 0)"
  by (auto simp: handleDeleteModel_resolved handleDeleteModel_rejected requests_append
      fetchModels_fields fetchModels_requests refreshes_def)

theorem handleDeleteModel_confirmed_witness:
  "map_option id' (selectedModel galleryState) = Some 7
   \<and> selectedModel (fst (handleDeleteModel example_runtime True (respond 404 (Inr (JObj [])))
                           (Inl OtherThrown) 7 galleryState)) = None
   \<and> map_option id' (selectedModel galleryState) \<noteq> Some 9
   \<and> selectedModel (fst (handleDeleteModel example_runtime True (respond 200 (Inr (JObj [])))
                           (Inl OtherThrown) 9 galleryState)) = Some chair
   \<and> requests (snd (handleDeleteModel example_runtime True (respond 200 (Inr (JObj [])))
                      (Inl OtherThrown) 9 galleryState)) = [DeleteModel 9, GetModels]
   \<and> fst (handleDeleteModel example_runtime True (Inl (JsError ''Failed to fetch''))
            (Inl OtherThrown) 7 galleryState) = galleryState"
proof -
  have a: "map_option id' (selectedModel galleryState) = Some 7"
    and b: "map_option id' (selectedModel galleryState) \<noteq> Some 9"
    and c: "selectedModel galleryState = Some chair"
    by (simp_all add: galleryState_def chair_def)
  from handleDeleteModel_confirmed [of "respond 404 (Inr (JObj []))"
         "\<lparr>response.status = 404, json = Inr (JObj [])\<rparr>" galleryState 7 example_runtime
         "Inl OtherThrown" OtherThrown]
       handleDeleteModel_confirmed [of "respond 200 (Inr (JObj []))"
         "\<lparr>response.status = 200, json = Inr (JObj [])\<rparr>" galleryState 9 example_runtime
         "Inl OtherThrown" OtherThrown]
       handleDeleteModel_confirmed [of "Inl (JsError ''Failed to fetch'')"
         "\<lparr>response.status = 200, json = Inr (JObj [])\<rparr>" galleryState 7 example_runtime
         "Inl OtherThrown" "JsError ''Failed to fetch''"]
       a b c
  show ?thesis by (simp add: respond_def)
qed

theorem handleDeleteModel_confirmed_counterexample:
  "map_option id' (selectedModel galleryState) = Some 7
   \<and> selectedModel (fst (handleDeleteModel example_runtime True (Inl (JsError ''Failed to fetch''))
                           (Inl OtherThrown) 7 galleryState)) \<noteq> None
   \<and> GetModels \<notin> set (requests (snd (handleDeleteModel example_runtime True
                           (Inl (JsError ''Failed to fetch'')) (Inl OtherThrown) 7 galleryState)))"
  by (simp add: handleDeleteModel_def galleryState_def chair_def)

text \<open>
  C9 (as amended). For every update whose request completes with a response, whatever
  its status (a failure reported by the service included), edit mode is exited and one
  \<^verbatim>\<open>GET /api/models\<close> follows the PUT. When the request itself fails (the fetch
  rejects), the state is left as it was, edit mode included, and no refresh is issued.
\<close>

theorem handleUpdateModel_outcomes:
  "(putOut = Inr resp \<longrightarrow>
      editingModel (fst (handleUpdateModel rt putOut listOut modelId s)) = None
      \<and> requests (snd (handleUpdateModel rt putOut listOut modelId s))
          = [PutModel modelId (editName s) (editDescription s), GetModels]
      \<and> refreshes (snd (handleUpdateModel rt putOut listOut modelId s)) = 1)
   \<and> (putOut = Inl err \<longrightarrow>
      fst (handleUpdateModel rt putOut listOut modelId s) = s
      \<and> requests (snd (handleUpdateModel rt putOut listOut modelId s))
          = [PutModel modelId (editName s) (editDescription s)]
      \<and> refreshes (snd (handleUpdateModel rt putOut listOut modelId s)) = 0)"
  by (simp add: handleUpdateModel_resolved handleUpdateModel_rejected
      fetchModels_fields fetchModels_requests refreshes_def)

theorem handleUpdateModel_outcomes_witness:
  "editingModel galleryState = Some 7
   \<and> \<not> ok \<lparr>response.status = 500, json = Inr quotaBody\<rparr>
   \<and> editingModel (fst (handleUpdateModel example_runtime (respond 500 (Inr quotaBody))
                          (Inl OtherThrown) 7 galleryState)) = None
   \<and> requests (snd (handleUpdateModel example_runtime (respond 500 (Inr quotaBody))
                      (Inl OtherThrown) 7 galleryState))
       = [PutModel 7 ''armchair'' ''oak'', GetModels]
   \<and> fst (handleUpdateModel example_runtime (Inl (JsError ''Failed to fetch''))
            (Inl OtherThrown) 7 galleryState) = galleryState"
proof -
  have e: "editingModel galleryState = Some 7" "editName galleryState = ''armchair''"
    "editDescription galleryState = ''oak''"
    by (simp_all add: galleryState_def)
  have k: "\<not> ok \<lparr>response.status = 500, json = Inr quotaBody\<rparr>"
    by (simp add: ok_def)
  from handleUpdateModel_outcomes [of "respond 500 (Inr quotaBody)"
         "\<lparr>response.status = 500, json = Inr quotaBody\<rparr>" example_runtime "Inl OtherThrown" 7
         galleryState OtherThrown]
       handleUpdateModel_outcomes [of "Inl (JsError ''Failed to fetch'')"
         "\<lparr>response.status = 500, json = Inr quotaBody\<rparr>" example_runtime "Inl OtherThrown" 7
         galleryState "JsError ''Failed to fetch''"]
       e k
  show ?thesis by (simp add: respond_def)
qed

theorem handleUpdateModel_outcomes_counterexample:
  "editingModel galleryState = Some 7
   \<and> editingModel (fst (handleUpdateModel example_runtime (Inl (JsError ''Failed to fetch''))
                          (Inl OtherThrown) 7 galleryState)) \<noteq> None
   \<and> GetModels \<notin> set (requests (snd (handleUpdateModel example_runtime
                          (Inl (JsError ''Failed to fetch'')) (Inl OtherThrown) 7 galleryState)))"
  by (simp add: handleUpdateModel_def galleryState_def)

section \<open>Refreshing the gallery\<close>

text \<open>
  C10 (as amended). For every \<^verbatim>\<open>fetchModels\<close> call whose request completes and whose
  body parses to a value other than \<^verbatim>\<open>null\<close>, whatever the status of the response:
  the snapshot is replaced with the \<^verbatim>\<open>models\<close> property of the body when that is
  truthy, and with the empty list when it is absent or falsy. The previous snapshot
  stays, with the whole state, when the request fails, when the body does not parse,
  and when the body parses to \<^verbatim>\<open>null\<close>. In every case nothing but the snapshot
  changes and the only request is the \<^verbatim>\<open>GET /api/models\<close>.
\<close>

theorem fetchModels_snapshot:
  "(listOut = Inr resp \<and> json resp = Inr (JObj kvs) \<and> map_of kvs ''models'' = Some m \<and> truthy m \<longrightarrow>
      savedModels (fst (fetchModels rt listOut s)) = asSavedModels rt m)
   \<and> (listOut = Inr resp \<and> json resp = Inr data \<and> getProp rt data ''models'' = Inr d
        \<and> \<not> truthy d \<longrightarrow>
      savedModels (fst (fetchModels rt listOut s)) = [])
   \<and> (listOut = Inl err \<longrightarrow> fst (fetchModels rt listOut s) = s)
   \<and> (listOut = Inr resp \<and> json resp = Inl err \<longrightarrow> fst (fetchModels rt listOut s) = s)
   \<and> (listOut = Inr resp \<and> json resp = Inr JNull \<longrightarrow> fst (fetchModels rt listOut s) = s)
   \<and> fst (fetchModels rt listOut s) = s\<lparr>savedModels := savedModels (fst (fetchModels rt listOut s))\<rparr>
   \<and> requests (snd (fetchModels rt listOut s)) = [GetModels]"
proof -
  have "savedModels (fst (fetchModels rt listOut s)) = asSavedModels rt m"
    if "listOut = Inr resp" "json resp = Inr (JObj kvs)" "map_of kvs ''models'' = Some m" "truthy m"
    using that fetchModels_stored [of resp "JObj kvs" rt m s] by simp
  moreover have "savedModels (fst (fetchModels rt listOut s)) = []"
    if "listOut = Inr resp" "json resp = Inr data" "getProp rt data ''models'' = Inr d" "\<not> truthy d"
    using that fetchModels_stored [of resp data rt d s] by simp
  moreover have "fst (fetchModels rt listOut s) = s" if "listOut = Inl err"
    using that by (simp add: fetchModels_caught)
  moreover have "fst (fetchModels rt listOut s) = s" if "listOut = Inr resp" "json resp = Inl err"
    using that by (simp add: fetchModels_caught)
  moreover have "fst (fetchModels rt listOut s) = s" if "listOut = Inr resp" "json resp = Inr JNull"
    using that by (simp add: fetchModels_caught)
  moreover have "fst (fetchModels rt listOut s)
                   = s\<lparr>savedModels := savedModels (fst (fetchModels rt listOut s))\<rparr>"
    by (simp add: fetchModels_def split: sum.splits)
  moreover note fetchModels_requests [of rt listOut s]
  ultimately show ?thesis by blast
qed

theorem fetchModels_snapshot_witness:
  "\<not> ok \<lparr>response.status = 500, json = Inr (JObj [(''models'', JArr [lampBody])])\<rparr>
   \<and> savedModels (fst (fetchModels example_runtime
                         (respond 500 (Inr (JObj [(''models'', JArr [lampBody])]))) galleryState))
       = [lamp]
   \<and> savedModels (fst (fetchModels example_runtime (respond 200 (Inr (JObj [(''models'', JArr [])])))
                         galleryState)) = []
   \<and> savedModels (fst (fetchModels example_runtime (respond 500 (Inr quotaBody)) galleryState)) = []
   \<and> savedModels (fst (fetchModels example_runtime (respond 200 (Inr (JObj [(''models'', JNull)])))
                         galleryState)) = []
   \<and> fst (fetchModels example_runtime (Inl (JsError ''Failed to fetch'')) galleryState) = galleryState
   \<and> fst (fetchModels example_runtime (respond 502 (Inl (JsError ''Unexpected token <'')))
            galleryState) = galleryState
   \<and> fst (fetchModels example_runtime (respond 200 (Inr JNull)) galleryState) = galleryState"
proof -
  have k: "\<not> ok \<lparr>response.status = 500, json = Inr (JObj [(''models'', JArr [lampBody])])\<rparr>"
    by (simp add: ok_def)
  have r: "asSavedModels example_runtime = readSavedModels"
    by (simp add: example_runtime_def)
  have e: "readSavedModels (JArr []) = []"
    by (simp add: readSavedModels_def List.map_filter_simps)
  have 1: "savedModels (fst (fetchModels example_runtime
                         (respond 500 (Inr (JObj [(''models'', JArr [lampBody])]))) galleryState))
       = [lamp]"
    using fetchModels_snapshot [where listOut = "respond 500 (Inr (JObj [(''models'', JArr [lampBody])]))"
        and resp = "\<lparr>response.status = 500, json = Inr (JObj [(''models'', JArr [lampBody])])\<rparr>"
        and kvs = "[(''models'', JArr [lampBody])]" and m = "JArr [lampBody]"
        and rt = example_runtime and s = galleryState]
    by (simp add: respond_def r readSavedModels_lampBody)
  have 2: "savedModels (fst (fetchModels example_runtime (respond 200 (Inr (JObj [(''models'', JArr [])])))
                         galleryState)) = []"
    using fetchModels_snapshot [where listOut = "respond 200 (Inr (JObj [(''models'', JArr [])]))"
        and resp = "\<lparr>response.status = 200, json = Inr (JObj [(''models'', JArr [])])\<rparr>"
        and kvs = "[(''models'', JArr [])]" and m = "JArr []"
        and rt = example_runtime and s = galleryState]
    by (simp add: respond_def r e)
  have 3: "savedModels (fst (fetchModels example_runtime (respond 500 (Inr quotaBody)) galleryState)) = []"
    using fetchModels_snapshot [where listOut = "respond 500 (Inr quotaBody)"
        and resp = "\<lparr>response.status = 500, json = Inr quotaBody\<rparr>"
        and data = quotaBody and d = JUndefined and rt = example_runtime and s = galleryState]
    by (simp add: respond_def quotaBody_def)
  have 4: "savedModels (fst (fetchModels example_runtime (respond 200 (Inr (JObj [(''models'', JNull)])))
                         galleryState)) = []"
    using fetchModels_snapshot [where listOut = "respond 200 (Inr (JObj [(''models'', JNull)]))"
        and resp = "\<lparr>response.status = 200, json = Inr (JObj [(''models'', JNull)])\<rparr>"
        and data = "JObj [(''models'', JNull)]" and d = JNull and rt = example_runtime
        and s = galleryState]
    by (simp add: respond_def)
  have 5: "fst (fetchModels example_runtime (Inl (JsError ''Failed to fetch'')) galleryState) = galleryState"
    using fetchModels_snapshot [where listOut = "Inl (JsError ''Failed to fetch'')"
        and err = "JsError ''Failed to fetch''" and rt = example_runtime and s = galleryState]
    by simp
  have 6: "fst (fetchModels example_runtime (respond 502 (Inl (JsError ''Unexpected token <'')))
            galleryState) = galleryState"
    using fetchModels_snapshot [where listOut = "respond 502 (Inl (JsError ''Unexpected token <''))"
        and resp = "\<lparr>response.status = 502, json = Inl (JsError ''Unexpected token <'')\<rparr>"
        and err = "JsError ''Unexpected token <''" and rt = example_runtime and s = galleryState]
    by (simp add: respond_def)
  have 7: "fst (fetchModels example_runtime (respond 200 (Inr JNull)) galleryState) = galleryState"
    using fetchModels_snapshot [where listOut = "respond 200 (Inr JNull)"
        and resp = "\<lparr>response.status = 200, json = Inr JNull\<rparr>"
        and rt = example_runtime and s = galleryState]
    by (simp add: respond_def)
  from k 1 2 3 4 5 6 7 show ?thesis by blast
qed

theorem fetchModels_snapshot_counterexample:
  "ok \<lparr>response.status = 200, json = Inr JNull\<rparr>
   \<and> savedModels galleryState = [chair, lamp]
   \<and> savedModels (fst (fetchModels example_runtime (respond 200 (Inr JNull)) galleryState))
       = [chair, lamp]
   \<and> savedModels (fst (fetchModels example_runtime (respond 200 (Inr JNull)) galleryState)) \<noteq> []"
  by (simp add: fetchModels_def respond_def ok_def galleryState_def)

end
